theory Spec2Isabelle
  imports Complex_Main "HOL-Library.Multiset" "HOL-Library.Word"
begin

section \<open>JavaScript values\<close>

text \<open>
  The sales analysis handler works on the rows the PostgreSQL driver hands over and on
  JavaScript numbers.  A number is modelled as an exact rational, extended by \<open>NaN\<close> and the
  two infinities; the rounding and the range of binary64 and the sign of zero are not
  modelled.  Strings are lists of characters with code points below 256.
\<close>

datatype jsnum = NaN | Fin rat | PInf | NInf

fun js_neg :: "jsnum \<Rightarrow> jsnum" where
  "js_neg NaN = NaN"
| "js_neg (Fin a) = Fin (- a)"
| "js_neg PInf = NInf"
| "js_neg NInf = PInf"

fun js_add :: "jsnum \<Rightarrow> jsnum \<Rightarrow> jsnum" where
  "js_add NaN _ = NaN"
| "js_add _ NaN = NaN"
| "js_add (Fin a) (Fin b) = Fin (a + b)"
| "js_add (Fin _) PInf = PInf"
| "js_add (Fin _) NInf = NInf"
| "js_add PInf (Fin _) = PInf"
| "js_add PInf PInf = PInf"
| "js_add PInf NInf = NaN"
| "js_add NInf (Fin _) = NInf"
| "js_add NInf NInf = NInf"
| "js_add NInf PInf = NaN"

definition js_sub :: "jsnum \<Rightarrow> jsnum \<Rightarrow> jsnum" where
  "js_sub a b = js_add a (js_neg b)"

text \<open>\<open>a <= b\<close> on numbers: false as soon as one side is \<open>NaN\<close>.\<close>

fun js_le :: "jsnum \<Rightarrow> jsnum \<Rightarrow> bool" where
  "js_le NaN _ = False"
| "js_le _ NaN = False"
| "js_le NInf _ = True"
| "js_le _ PInf = True"
| "js_le (Fin a) (Fin b) = (a \<le> b)"
| "js_le (Fin _) NInf = False"
| "js_le PInf _ = False"

definition Math_min :: "jsnum \<Rightarrow> jsnum \<Rightarrow> jsnum" where
  "Math_min a b = (if a = NaN \<or> b = NaN then NaN else if js_le a b then a else b)"

definition Math_max :: "jsnum \<Rightarrow> jsnum \<Rightarrow> jsnum" where
  "Math_max a b = (if a = NaN \<or> b = NaN then NaN else if js_le a b then b else a)"

text \<open>\<open>x || 0\<close> on a number: \<open>NaN\<close> and zero are falsy.\<close>

definition js_or0 :: "jsnum \<Rightarrow> jsnum" where
  "js_or0 x = (if x = NaN \<or> x = Fin 0 then Fin 0 else x)"

subsection \<open>Strings\<close>

definition StrWhiteSpaceChar :: "char \<Rightarrow> bool" where
  "StrWhiteSpaceChar c \<longleftrightarrow>
     c \<in> set [CHR 0x09, CHR 0x0A, CHR 0x0B, CHR 0x0C, CHR 0x0D, CHR 0x20, CHR 0xA0]"

text \<open>\<open>String.prototype.trim\<close>.\<close>

definition trim :: "string \<Rightarrow> string" where
  "trim s = rev (dropWhile StrWhiteSpaceChar (rev (dropWhile StrWhiteSpaceChar s)))"

definition is_digit :: "char \<Rightarrow> bool" where
  "is_digit c \<longleftrightarrow> c \<in> set ''0123456789''"

definition digit_val :: "char \<Rightarrow> int" where
  "digit_val c = int (length (takeWhile (\<lambda>d. d \<noteq> c) ''0123456789''))"

definition int_of_digits :: "string \<Rightarrow> int" where
  "int_of_digits ds = foldl (\<lambda>n c. 10 * n + digit_val c) 0 ds"

definition is_hex_digit :: "char \<Rightarrow> bool" where
  "is_hex_digit c \<longleftrightarrow> c \<in> set ''0123456789abcdefABCDEF''"

definition hex_val :: "char \<Rightarrow> int" where
  "hex_val c =
     (if c \<in> set ''ABCDEF'' then 10 + int (length (takeWhile (\<lambda>d. d \<noteq> c) ''ABCDEF''))
      else int (length (takeWhile (\<lambda>d. d \<noteq> c) ''0123456789abcdef'')))"

definition int_of_hex :: "string \<Rightarrow> int" where
  "int_of_hex ds = foldl (\<lambda>n c. 16 * n + hex_val c) 0 ds"

fun split_sign :: "string \<Rightarrow> bool \<times> string" where
  "split_sign [] = (False, [])"
| "split_sign (c # cs) =
     (if c = CHR ''-'' then (True, cs) else if c = CHR ''+'' then (False, cs)
      else (False, c # cs))"

text \<open>
  \<open>parseInt(string)\<close> with no radix: leading white space, a sign, an optional \<open>0x\<close>, then
  the longest run of digits; \<open>None\<close> stands for \<open>NaN\<close>.  The result is never fractional
  and never infinite.
\<close>

definition parseInt_str :: "string \<Rightarrow> int option" where
  "parseInt_str s =
     (let (neg, t) = split_sign (dropWhile StrWhiteSpaceChar s);
          hex = (take 2 t = ''0x'' \<or> take 2 t = ''0X'');
          ds = (if hex then takeWhile is_hex_digit (drop 2 t) else takeWhile is_digit t);
          n = (if hex then int_of_hex ds else int_of_digits ds)
      in if ds = [] then None else Some (if neg then - n else n))"

definition exponent_part :: "string \<Rightarrow> int" where
  "exponent_part s =
     (case s of
        [] \<Rightarrow> 0
      | c # cs \<Rightarrow>
          if c = CHR ''e'' \<or> c = CHR ''E'' then
            (let (neg, t) = split_sign cs; ds = takeWhile is_digit t
             in if ds = [] then 0
                else if neg then - int_of_digits ds else int_of_digits ds)
          else 0)"

definition pow10 :: "int \<Rightarrow> rat" where
  "pow10 e = (if 0 \<le> e then 10 ^ nat e else 1 / 10 ^ nat (- e))"

text \<open>
  \<open>parseFloat(string)\<close>: leading white space, then the longest prefix that is a decimal
  literal (sign, \<open>Infinity\<close>, or digits with an optional fraction and exponent).
\<close>

definition parseFloat_str :: "string \<Rightarrow> jsnum" where
  "parseFloat_str s =
     (let (neg, t) = split_sign (dropWhile StrWhiteSpaceChar s) in
      if take 8 t = ''Infinity'' then (if neg then NInf else PInf)
      else
        let ip = takeWhile is_digit t;
            r1 = dropWhile is_digit t;
            fp = (case r1 of [] \<Rightarrow> [] | c # cs \<Rightarrow>
                    if c = CHR ''.'' then takeWhile is_digit cs else []);
            r2 = (case r1 of [] \<Rightarrow> [] | c # cs \<Rightarrow>
                    if c = CHR ''.'' then dropWhile is_digit cs else r1)
        in if ip = [] \<and> fp = [] then NaN
           else
             let m = rat_of_int (int_of_digits (ip @ fp)) / 10 ^ length fp
                       * pow10 (exponent_part r2)
             in Fin (if neg then - m else m))"

subsection \<open>Numbers as strings\<close>

fun show_nat :: "nat \<Rightarrow> string" where
  "show_nat n =
     (if n < 10 then [''0123456789'' ! n]
      else show_nat (n div 10) @ [''0123456789'' ! (n mod 10)])"

declare show_nat.simps [simp del]

text \<open>
  \<open>Number.prototype.toString\<close> on an integer: plain decimal digits below \<open>10^21\<close>,
  exponent notation from there on.
\<close>

definition js_int_to_string :: "int \<Rightarrow> string" where
  "js_int_to_string i =
     (let ds = show_nat (nat \<bar>i\<bar>);
          body =
            (if \<bar>i\<bar> < 10 ^ 21 then ds
             else
               let frac = rev (dropWhile (\<lambda>c. c = CHR ''0'') (rev (tl ds)))
               in take 1 ds @ (if frac = [] then [] else CHR ''.'' # frac)
                    @ ''e+'' @ show_nat (length ds - 1))
      in if i < 0 then CHR ''-'' # body else body)"

subsection \<open>Values delivered by the database driver\<close>

text \<open>
  The driver delivers \<open>null\<close> as \<open>null\<close>, \<open>text\<close>, \<open>bigint\<close> and \<open>numeric\<close> values as
  strings, and \<open>integer\<close> (32 bit) values as numbers.
\<close>

datatype pgval = PgNull | PgText string | PgInt4 "32 word"

fun ToString :: "pgval \<Rightarrow> string" where
  "ToString PgNull = ''null''"
| "ToString (PgText s) = s"
| "ToString (PgInt4 w) = js_int_to_string (sint w)"

definition parseInt :: "pgval \<Rightarrow> int option" where
  "parseInt v = parseInt_str (ToString v)"

definition parseFloat :: "pgval \<Rightarrow> jsnum" where
  "parseFloat v = parseFloat_str (ToString v)"

text \<open>The number a \<open>parseInt\<close> result is.\<close>

fun num :: "int option \<Rightarrow> jsnum" where
  "num None = NaN"
| "num (Some i) = Fin (rat_of_int i)"

section \<open>Plain objects used as dictionaries\<close>

text \<open>
  The handler collects per-key aggregates in object literals (\<open>{}\<close>).  Such an object has
  its own properties, kept in creation order, and it inherits the properties of
  \<open>Object.prototype\<close>: reading one of the names below from an object that has no own
  property of that name yields the inherited function or object, which is truthy and
  not \<open>undefined\<close>.
\<close>

type_synonym 'v obj = "(string \<times> 'v) list"

definition Object_prototype_names :: "string list" where
  "Object_prototype_names =
     [''constructor'', ''__defineGetter__'', ''__defineSetter__'', ''hasOwnProperty'',
      ''__lookupGetter__'', ''__lookupSetter__'', ''isPrototypeOf'',
      ''propertyIsEnumerable'', ''toString'', ''valueOf'', ''__proto__'',
      ''toLocaleString'']"

definition inherited :: "string \<Rightarrow> bool" where
  "inherited k \<longleftrightarrow> k \<in> set Object_prototype_names"

definition has_own :: "'v obj \<Rightarrow> string \<Rightarrow> bool" where
  "has_own m k \<longleftrightarrow> map_of m k \<noteq> None"

text \<open>
  The order of \<open>Object.values\<close> and \<open>Object.entries\<close>: own properties whose name is an
  array index (a canonical decimal numeral below \<open>2^32 - 1\<close>) in ascending numeric order,
  then the other own properties in creation order.
\<close>

definition is_array_index :: "string \<Rightarrow> bool" where
  "is_array_index k \<longleftrightarrow>
     k \<noteq> [] \<and> list_all is_digit k \<and> (k = ''0'' \<or> take 1 k \<noteq> ''0'')
       \<and> int_of_digits k < 4294967295"

definition Object_entries :: "'v obj \<Rightarrow> (string \<times> 'v) list" where
  "Object_entries m =
     sort_key (\<lambda>p. int_of_digits (fst p)) (filter (\<lambda>p. is_array_index (fst p)) m)
       @ filter (\<lambda>p. \<not> is_array_index (fst p)) m"

definition Object_values :: "'v obj \<Rightarrow> 'v list" where
  "Object_values m = map snd (Object_entries m)"

section \<open>Regional demand\<close>

record city_row =
  district :: "string option"
  count :: pgval
  total_amount :: pgval

record city =
  district :: string
  booking_count :: jsnum
  quotation_count :: jsnum
  booking_amount :: jsnum
  quotation_amount :: jsnum

text \<open>\<open>row.district || 'Unknown'\<close>: \<open>null\<close> and the empty string are falsy.\<close>

definition district_key :: "city_row \<Rightarrow> string" where
  "district_key row =
     (case city_row.district row of
        None \<Rightarrow> ''Unknown''
      | Some d \<Rightarrow> if d = [] then ''Unknown'' else d)"

definition new_city :: "string \<Rightarrow> city" where
  "new_city d =
     \<lparr> district = d, booking_count = Fin 0, quotation_count = Fin 0,
       booking_amount = Fin 0, quotation_amount = Fin 0 \<rparr>"

definition add_city :: "string \<Rightarrow> city_row \<Rightarrow> city \<Rightarrow> city" where
  "add_city type row c =
     (if type = ''booking'' then
        c \<lparr> booking_count := js_add (booking_count c) (num (parseInt (city_row.count row))),
            booking_amount :=
              js_add (booking_amount c) (parseFloat (city_row.total_amount row)) \<rparr>
      else
        c \<lparr> quotation_count :=
              js_add (quotation_count c) (num (parseInt (city_row.count row))),
            quotation_amount :=
              js_add (quotation_amount c) (parseFloat (city_row.total_amount row)) \<rparr>)"

text \<open>
  One round of the \<open>forEach\<close> in \<open>combineCityData\<close>.  When \<open>map[district]\<close> is inherited
  from \<open>Object.prototype\<close> no entry is created, and the two \<open>+=\<close> write to the inherited
  object: the own properties of \<open>map\<close> stay as they are.
\<close>

definition city_step :: "string \<Rightarrow> city obj \<Rightarrow> city_row \<Rightarrow> city obj" where
  "city_step type m row =
     (let d = district_key row;
          m1 = (if \<not> (has_own m d \<or> inherited d) then m @ [(d, new_city d)] else m)
      in map (\<lambda>(k, c). if k = d then (k, add_city type row c) else (k, c)) m1)"

definition combineCityData :: "city_row list \<Rightarrow> city_row list \<Rightarrow> string \<Rightarrow> city list" where
  "combineCityData bookingRows quotationRows type =
     Object_values (foldl (city_step type) [] (bookingRows @ quotationRows))"

definition cityData :: "city_row list \<Rightarrow> city_row list \<Rightarrow> city list" where
  "cityData bookingRows quotationRows = combineCityData bookingRows quotationRows ''both''"

section \<open>Product sales\<close>

record product_row =
  productname :: "string option"
  quantity :: pgval

text \<open>
  An accumulated quantity is a number, unless the product name hit an inherited property:
  then \<open>+\<close> concatenated strings.
\<close>

datatype jsquantity = QNum int | QStr string

record product =
  productname :: string
  quantity :: jsquantity

text \<open>
  What \<open>+\<close> turns an inherited property of \<open>Object.prototype\<close> into: the source text
  of the built-in function, or \<open>[object Object]\<close> for \<open>__proto__\<close>.
\<close>

definition inherited_to_string :: "string \<Rightarrow> string" where
  "inherited_to_string k =
     (if k = ''__proto__'' then ''[object Object]''
      else if k = ''constructor'' then ''function Object() { [native code] }''
      else ''function '' @ k @ ''() { [native code] }'')"

text \<open>\<open>parseInt(v) || 0\<close>.\<close>

definition parseInt_or0 :: "pgval \<Rightarrow> int" where
  "parseInt_or0 v = (case parseInt v of None \<Rightarrow> 0 | Some i \<Rightarrow> i)"

text \<open>\<open>acc[name] = v\<close> for a name other than \<open>__proto__\<close>.\<close>

definition set_own :: "'v obj \<Rightarrow> string \<Rightarrow> 'v \<Rightarrow> 'v obj" where
  "set_own m k v =
     (if has_own m k then map (\<lambda>(k', v'). if k' = k then (k', v) else (k', v')) m
      else m @ [(k, v)])"

text \<open>
  One round of the \<open>reduce\<close>.  \<open>(acc[name] || 0) + qty\<close> adds numbers, and concatenates
  as soon as \<open>acc[name]\<close> is a non-empty string or an inherited object.  Assigning a
  string to \<open>__proto__\<close> has no effect.
\<close>

definition product_step :: "jsquantity obj \<Rightarrow> product_row \<Rightarrow> jsquantity obj" where
  "product_step acc row =
     (let name = map_option trim (product_row.productname row);
          qty = parseInt_or0 (product_row.quantity row)
      in case name of
           None \<Rightarrow> acc
         | Some name \<Rightarrow>
             if name = [] then acc
             else
               let v = (case map_of acc name of
                          Some (QNum n) \<Rightarrow> QNum (n + qty)
                        | Some (QStr s) \<Rightarrow>
                            if s = [] then QNum qty else QStr (s @ js_int_to_string qty)
                        | None \<Rightarrow>
                            if inherited name
                            then QStr (inherited_to_string name @ js_int_to_string qty)
                            else QNum qty)
               in if name = ''__proto__'' then acc else set_own acc name v)"

definition productSummary :: "product_row list \<Rightarrow> jsquantity obj" where
  "productSummary rows = foldl product_step [] rows"

text \<open>
  The comparator \<open>(a, b) => b.quantity - a.quantity\<close> is positive when \<open>a\<close> has to come
  after \<open>b\<close>.  The strings that arise as quantities convert to \<open>NaN\<close>, and a \<open>NaN\<close>
  result counts as zero.
\<close>

definition quantity_after :: "product \<Rightarrow> product \<Rightarrow> bool" where
  "quantity_after a b =
     (case (product.quantity a, product.quantity b) of
        (QNum x, QNum y) \<Rightarrow> 0 < y - x
      | _ \<Rightarrow> False)"

text \<open>
  \<open>Array.prototype.sort\<close> is stable.  For a consistent comparator its result is
  determined, and insertion computes it; with a \<open>NaN\<close> among the comparisons the order
  is left to the engine, and the model is one possible order.
\<close>

fun insert_by :: "('a \<Rightarrow> 'a \<Rightarrow> bool) \<Rightarrow> 'a \<Rightarrow> 'a list \<Rightarrow> 'a list" where
  "insert_by after x [] = [x]"
| "insert_by after x (y # ys) =
     (if after x y then y # insert_by after x ys else x # y # ys)"

definition Array_sort :: "('a \<Rightarrow> 'a \<Rightarrow> bool) \<Rightarrow> 'a list \<Rightarrow> 'a list" where
  "Array_sort after xs = foldr (insert_by after) xs []"

definition productData :: "product_row list \<Rightarrow> product list" where
  "productData rows =
     Array_sort quantity_after
       (map (\<lambda>(name, q). \<lparr> product.productname = name, product.quantity = q \<rparr>)
          (Object_entries (productSummary rows)))"

section \<open>Historical trends and profitability\<close>

record trend_row =
  month :: "string option"
  volume :: pgval
  total_amount :: pgval
  amount_paid :: pgval

record trend =
  month :: "string option"
  volume :: jsnum
  total_amount :: jsnum
  amount_paid :: jsnum
  unpaid_amount :: jsnum

definition trend_of :: "trend_row \<Rightarrow> trend" where
  "trend_of row =
     (let total = js_or0 (parseFloat (trend_row.total_amount row));
          paid = js_or0 (parseFloat (trend_row.amount_paid row));
          unpaid = js_sub total paid
      in \<lparr> trend.month = trend_row.month row,
           trend.volume = js_or0 (num (parseInt (trend_row.volume row))),
           trend.total_amount = total,
           trend.amount_paid = Math_min paid total,
           trend.unpaid_amount = Math_max (Fin 0) unpaid \<rparr>)"

definition trendDataArray :: "trend_row list \<Rightarrow> trend list" where
  "trendDataArray rows = map trend_of rows"

record profit_row =
  total_amount :: pgval
  amount_paid :: pgval

record profit =
  total_amount :: jsnum
  amount_paid :: jsnum
  unpaid_amount :: jsnum

text \<open>\<open>profitability.rows[0] || { total_amount: 0, amount_paid: 0 }\<close>.\<close>

definition profitRow :: "profit_row list \<Rightarrow> profit_row" where
  "profitRow rows =
     (case rows of
        [] \<Rightarrow> \<lparr> profit_row.total_amount = PgInt4 0, profit_row.amount_paid = PgInt4 0 \<rparr>
      | r # _ \<Rightarrow> r)"

definition profitData :: "profit_row list \<Rightarrow> profit" where
  "profitData rows =
     (let totalAmount = js_or0 (parseFloat (profit_row.total_amount (profitRow rows)));
          amountPaid = js_or0 (parseFloat (profit_row.amount_paid (profitRow rows)))
      in \<lparr> profit.total_amount = totalAmount,
           profit.amount_paid = amountPaid,
           profit.unpaid_amount = Math_max (Fin 0) (js_sub totalAmount amountPaid) \<rparr>)"

section \<open>Quotation conversion, customer types, cancellations\<close>

record status_row =
  status :: "string option"
  count :: pgval
  total_amount :: pgval

record bucket =
  count :: jsnum
  total_amount :: jsnum

record quotation_summary =
  pending :: bucket
  booked :: bucket
  canceled :: bucket

text \<open>\<open>row.status || 'canceled'\<close>.\<close>

definition status_key :: "status_row \<Rightarrow> string" where
  "status_key row =
     (case status_row.status row of
        None \<Rightarrow> ''canceled''
      | Some s \<Rightarrow> if s = [] then ''canceled'' else s)"

definition add_bucket :: "status_row \<Rightarrow> bucket \<Rightarrow> bucket" where
  "add_bucket row b =
     b \<lparr> bucket.count := js_add (bucket.count b) (num (parseInt (status_row.count row))),
         bucket.total_amount :=
           js_add (bucket.total_amount b)
             (js_or0 (parseFloat (status_row.total_amount row))) \<rparr>"

definition empty_summary :: quotation_summary where
  "empty_summary =
     \<lparr> pending = \<lparr> bucket.count = Fin 0, bucket.total_amount = Fin 0 \<rparr>,
       booked = \<lparr> bucket.count = Fin 0, bucket.total_amount = Fin 0 \<rparr>,
       canceled = \<lparr> bucket.count = Fin 0, bucket.total_amount = Fin 0 \<rparr> \<rparr>"

text \<open>
  One round of the \<open>forEach\<close> over the status rows.  For any other status
  \<open>quotationSummary[status]\<close> is \<open>undefined\<close>, or an object inherited from
  \<open>Object.prototype\<close> that takes the two \<open>+=\<close>: the three buckets stay as they are.
\<close>

definition quotation_step :: "quotation_summary \<Rightarrow> status_row \<Rightarrow> quotation_summary" where
  "quotation_step q row =
     (let status = status_key row
      in if status = ''pending'' then q \<lparr> pending := add_bucket row (pending q) \<rparr>
         else if status = ''booked'' then q \<lparr> booked := add_bucket row (booked q) \<rparr>
         else if status = ''canceled'' then q \<lparr> canceled := add_bucket row (canceled q) \<rparr>
         else q)"

definition quotationSummary :: "status_row list \<Rightarrow> quotation_summary" where
  "quotationSummary rows = foldl quotation_step empty_summary rows"

record customer_row =
  customer_type :: "string option"
  count :: pgval
  total_amount :: pgval

record customer_type_entry =
  customer_type :: string
  count :: jsnum
  total_amount :: jsnum

definition customerTypeData :: "customer_row list \<Rightarrow> customer_type_entry list" where
  "customerTypeData rows =
     map (\<lambda>row.
            \<lparr> customer_type_entry.customer_type =
                (case customer_row.customer_type row of
                   None \<Rightarrow> ''Unknown''
                 | Some t \<Rightarrow> if t = [] then ''Unknown'' else t),
              customer_type_entry.count = num (parseInt (customer_row.count row)),
              customer_type_entry.total_amount =
                js_or0 (parseFloat (customer_row.total_amount row)) \<rparr>)
         rows"

text \<open>A \<open>created_at\<close> is a point in time, counted in microseconds, or \<open>null\<close>.\<close>

record cancellation_row =
  type :: string
  order_id :: pgval
  total :: pgval
  created_at :: "int option"

record cancellation =
  type :: string
  order_id :: pgval
  total :: jsnum
  created_at :: "int option"

definition cancellation_of :: "cancellation_row \<Rightarrow> cancellation" where
  "cancellation_of row =
     \<lparr> cancellation.type = cancellation_row.type row,
       cancellation.order_id = cancellation_row.order_id row,
       cancellation.total = js_or0 (parseFloat (cancellation_row.total row)),
       cancellation.created_at = cancellation_row.created_at row \<rparr>"

definition cancellationData :: "cancellation_row list \<Rightarrow> cancellation list" where
  "cancellationData rows = map cancellation_of rows"

section \<open>The handler\<close>

record validate_row =
  source :: string
  invalid_count :: pgval

text \<open>
  What the pool answers to the nine \<open>pool.query\<close> calls of one request, in the order
  of the calls: the rows, or the message of the error the call is rejected with.
\<close>

record pool =
  validateProducts :: "string + validate_row list"
  products :: "string + product_row list"
  cityBookings :: "string + city_row list"
  cityQuotations :: "string + city_row list"
  historical :: "string + trend_row list"
  profitability :: "string + profit_row list"
  quotations :: "string + status_row list"
  customerTypes :: "string + customer_row list"
  cancellations :: "string + cancellation_row list"

record report =
  products :: "product list"
  cities :: "city list"
  trends :: "trend list"
  profitability :: profit
  quotations :: quotation_summary
  customer_types :: "customer_type_entry list"
  cancellations :: "cancellation list"

datatype body = Report report | Failure (message: string) (error: string)

datatype response = Response nat body

text \<open>
  \<open>await pool.query(...)\<close> inside the \<open>try\<close>: a rejected query leaves the block for
  the \<open>catch\<close>, which logs the error and answers 500 with the error's message.  The
  log is not part of the model.
\<close>

definition await :: "string + 'a \<Rightarrow> ('a \<Rightarrow> response) \<Rightarrow> response" where
  "await q k =
     (case q of
        Inl err \<Rightarrow> Response 500 (Failure ''Failed to fetch sales analysis'' err)
      | Inr rows \<Rightarrow> k rows)"

definition getSalesAnalysis :: "pool \<Rightarrow> response" where
  "getSalesAnalysis p =
     await (pool.validateProducts p) (\<lambda>validateProducts.
     await (pool.products p) (\<lambda>products.
     await (pool.cityBookings p) (\<lambda>cityBookings.
     await (pool.cityQuotations p) (\<lambda>cityQuotations.
     await (pool.historical p) (\<lambda>historical.
     await (pool.profitability p) (\<lambda>profitability.
     await (pool.quotations p) (\<lambda>quotations.
     await (pool.customerTypes p) (\<lambda>customerTypes.
     await (pool.cancellations p) (\<lambda>cancellations.
       Response 200 (Report
         \<lparr> report.products = productData products,
           report.cities = cityData cityBookings cityQuotations,
           report.trends = trendDataArray historical,
           report.profitability = profitData profitability,
           report.quotations = quotationSummary quotations,
           report.customer_types = customerTypeData customerTypes,
           report.cancellations = cancellationData cancellations \<rparr>))))))))))"

section \<open>The queries\<close>

text \<open>
  The queries run in the database.  What the claims below need of them is modelled: the
  test each \<open>WHERE\<close> clause makes on \<open>status\<close>, and the cancellations query with its
  \<open>ORDER BY\<close>.  \<open>LOWER\<close> is modelled on the letters A to Z.  A comparison with a \<open>NULL\<close>
  status is not true, so the row is not selected.
\<close>

definition lower_char :: "char \<Rightarrow> char" where
  "lower_char c =
     (case map_of (zip ''ABCDEFGHIJKLMNOPQRSTUVWXYZ'' ''abcdefghijklmnopqrstuvwxyz'') c of
        None \<Rightarrow> c
      | Some l \<Rightarrow> l)"

definition LOWER :: "string \<Rightarrow> string" where
  "LOWER s = map lower_char s"

definition sql_in :: "string option \<Rightarrow> string list \<Rightarrow> bool" where
  "sql_in v vs = (case v of None \<Rightarrow> False | Some s \<Rightarrow> s \<in> set vs)"

text \<open>Query 1, the probe: \<open>status IN (...)\<close>, on the stored value as it is.\<close>

definition validateProducts_bookings_status :: "string option \<Rightarrow> bool" where
  "validateProducts_bookings_status st =
     sql_in st [''booked'', ''paid'', ''dispatched'', ''packed'', ''delivered'']"

definition validateProducts_fwcquotations_status :: "string option \<Rightarrow> bool" where
  "validateProducts_fwcquotations_status st = sql_in st [''booked'', ''pending'']"

text \<open>The other queries over bookings: \<open>LOWER(status) IN (...)\<close>.\<close>

definition products_status :: "string option \<Rightarrow> bool" where
  "products_status st =
     sql_in (map_option LOWER st) [''booked'', ''paid'', ''dispatched'', ''packed'', ''delivered'']"

definition cityBookings_status :: "string option \<Rightarrow> bool" where
  "cityBookings_status st =
     sql_in (map_option LOWER st) [''booked'', ''paid'', ''dispatched'', ''packed'', ''delivered'']"

definition cityQuotations_status :: "string option \<Rightarrow> bool" where
  "cityQuotations_status st = sql_in (map_option LOWER st) [''pending'', ''booked'']"

definition historical_status :: "string option \<Rightarrow> bool" where
  "historical_status st =
     sql_in (map_option LOWER st) [''booked'', ''paid'', ''dispatched'', ''packed'', ''delivered'']"

definition profitability_status :: "string option \<Rightarrow> bool" where
  "profitability_status st =
     sql_in (map_option LOWER st) [''booked'', ''paid'', ''dispatched'', ''packed'', ''delivered'']"

definition customerTypes_status :: "string option \<Rightarrow> bool" where
  "customerTypes_status st =
     sql_in (map_option LOWER st) [''booked'', ''paid'', ''dispatched'', ''packed'', ''delivered'']"

text \<open>
  The cancellations query: \<open>LOWER(status) = 'canceled'\<close>.  (The conversion query has no
  \<open>WHERE\<close> clause; it groups by \<open>LOWER(status)\<close>.)
\<close>

definition cancellations_status :: "string option \<Rightarrow> bool" where
  "cancellations_status st = sql_in (map_option LOWER st) [''canceled'']"

text \<open>
  The columns of the two tables that the cancellations query reads.  \<open>total\<close> holds the
  text under which the driver delivers the numeric value, or \<open>NULL\<close>.
\<close>

record booking =
  order_id :: pgval
  status :: "string option"
  total :: "string option"
  created_at :: "int option"

record fwcquotation =
  quotation_id :: pgval
  status :: "string option"
  total :: "string option"
  created_at :: "int option"

text \<open>\<open>COALESCE(total::numeric, 0)\<close>, as delivered.\<close>

definition coalesce_total :: "string option \<Rightarrow> pgval" where
  "coalesce_total t = PgText (case t of None \<Rightarrow> ''0'' | Some s \<Rightarrow> s)"

text \<open>
  \<open>ORDER BY created_at DESC\<close>: a row comes after another when its \<open>created_at\<close> is
  smaller, \<open>NULL\<close> counting as larger than every point in time.  The database is free
  in the order of rows with equal \<open>created_at\<close>; the model keeps them as the
  \<open>UNION ALL\<close> lists them.
\<close>

definition created_at_less :: "int option \<Rightarrow> int option \<Rightarrow> bool" where
  "created_at_less a b =
     (case a of
        None \<Rightarrow> False
      | Some x \<Rightarrow> (case b of None \<Rightarrow> True | Some y \<Rightarrow> x < y))"

definition created_at_ge :: "int option \<Rightarrow> int option \<Rightarrow> bool" where
  "created_at_ge a b \<longleftrightarrow> \<not> created_at_less a b"

definition ORDER_BY_created_at_DESC :: "cancellation_row list \<Rightarrow> cancellation_row list" where
  "ORDER_BY_created_at_DESC rows =
     foldr (insert_by (\<lambda>r s. created_at_less (cancellation_row.created_at r)
                               (cancellation_row.created_at s))) rows []"

definition cancellations_query :: "booking list \<Rightarrow> fwcquotation list \<Rightarrow> cancellation_row list" where
  "cancellations_query bookings fwcquotations =
     ORDER_BY_created_at_DESC
       (map (\<lambda>b. \<lparr> cancellation_row.type = ''booking'',
                   cancellation_row.order_id = booking.order_id b,
                   cancellation_row.total = coalesce_total (booking.total b),
                   cancellation_row.created_at = booking.created_at b \<rparr>)
          (filter (\<lambda>b. cancellations_status (booking.status b)) bookings)
        @ map (\<lambda>q. \<lparr> cancellation_row.type = ''quotation'',
                     cancellation_row.order_id = fwcquotation.quotation_id q,
                     cancellation_row.total = coalesce_total (fwcquotation.total q),
                     cancellation_row.created_at = fwcquotation.created_at q \<rparr>)
            (filter (\<lambda>q. cancellations_status (fwcquotation.status q)) fwcquotations))"

section \<open>The specification's reading of a district\<close>

text \<open>
  The district of a row as the specification words it: an absent district is replaced by
  \<open>Unknown\<close>, every other district stands for itself.
\<close>

definition spec_district :: "city_row \<Rightarrow> string" where
  "spec_district row =
     (case city_row.district row of None \<Rightarrow> ''Unknown'' | Some d \<Rightarrow> d)"

section \<open>Regional demand: what the merge computes\<close>

lemma map_of_map_upd:
  "map_of (map (\<lambda>(k, c). if k = d then (k, f c) else (k, c)) m) k
     = (if k = d then map_option f (map_of m k) else map_of m k)"
  by (induction m) auto

lemma map_of_city_step:
  "map_of (city_step t m r) k =
     (if k = district_key r then
        (case map_of m k of
           Some c \<Rightarrow> Some (add_city t r c)
         | None \<Rightarrow> if inherited k then None else Some (add_city t r (new_city k)))
      else map_of m k)"
  by (auto simp: city_step_def Let_def has_own_def map_of_map_upd map_add_def
      split: option.splits)

lemma keys_city_step:
  "map fst (city_step t m r) =
     (if has_own m (district_key r) \<or> inherited (district_key r) then map fst m
      else map fst m @ [district_key r])"
  by (auto simp: city_step_def Let_def case_prod_unfold comp_def)

lemma has_own_iff: "has_own m k \<longleftrightarrow> k \<in> set (map fst m)"
  by (simp add: has_own_def map_of_eq_None_iff)

text \<open>The entry of a key after the loop, from the entry before it and the rows of that key.\<close>

lemma map_of_foldl_city_step:
  "map_of (foldl (city_step t) m rs) k =
     (case map_of m k of
        Some c \<Rightarrow> Some (foldl (\<lambda>c r. add_city t r c) c (filter (\<lambda>r. district_key r = k) rs))
      | None \<Rightarrow>
          if inherited k \<or> k \<notin> district_key ` set rs then None
          else Some (foldl (\<lambda>c r. add_city t r c) (new_city k)
                       (filter (\<lambda>r. district_key r = k) rs)))"
proof (induction rs arbitrary: m)
  case Nil
  show ?case by (simp split: option.splits)
next
  case (Cons r rs)
  show ?case
    by (auto simp: Cons.IH map_of_city_step split: option.splits)
qed

lemma distinct_keys_foldl_city_step:
  "distinct (map fst m) \<Longrightarrow> distinct (map fst (foldl (city_step t) m rs))"
proof (induction rs arbitrary: m)
  case Nil
  then show ?case by simp
next
  case (Cons r rs)
  have "distinct (map fst (city_step t m r))"
    using Cons.prems by (simp add: keys_city_step has_own_iff)
  then show ?case using Cons.IH by simp
qed

lemma mset_Object_entries: "mset (Object_entries m) = mset m"
  by (simp add: Object_entries_def)

lemma set_Object_entries: "set (Object_entries m) = set m"
  using mset_Object_entries [of m] by (metis set_mset_mset)

lemma distinct_keys_Object_entries:
  "distinct (map fst m) \<Longrightarrow> distinct (map fst (Object_entries m))"
proof -
  have "mset (map fst (Object_entries m)) = mset (map fst m)"
    by (simp add: mset_Object_entries)
  then show "distinct (map fst m) \<Longrightarrow> distinct (map fst (Object_entries m))"
    by (metis mset_eq_imp_distinct_iff)
qed

lemma foldl_add_city:
  "t \<noteq> ''booking'' \<Longrightarrow>
   foldl (\<lambda>c r. add_city t r c) c rs =
     c \<lparr> quotation_count :=
           foldl js_add (quotation_count c) (map (\<lambda>r. num (parseInt (city_row.count r))) rs),
         quotation_amount :=
           foldl js_add (quotation_amount c)
             (map (\<lambda>r. parseFloat (city_row.total_amount r)) rs) \<rparr>"
  by (induction rs arbitrary: c) (simp_all add: add_city_def)

lemma fold_city_step_entry:
  assumes "(k, c) \<in> set (foldl (city_step t) [] rs)"
  shows "\<not> inherited k \<and> k \<in> district_key ` set rs
         \<and> c = foldl (\<lambda>c r. add_city t r c) (new_city k)
                 (filter (\<lambda>r. district_key r = k) rs)"
proof -
  have "distinct (map fst (foldl (city_step t) [] rs))"
    by (rule distinct_keys_foldl_city_step) simp
  with assms have "map_of (foldl (city_step t) [] rs) k = Some c"
    by (simp only: map_of_eq_Some_iff)
  then show ?thesis
    by (simp add: map_of_foldl_city_step split: if_splits)
qed

lemma fold_city_step_keys:
  "fst ` set (foldl (city_step t) [] rs) = {k \<in> district_key ` set rs. \<not> inherited k}"
proof -
  have "fst ` set (foldl (city_step t) [] rs) = dom (map_of (foldl (city_step t) [] rs))"
    by (simp add: dom_map_of_conv_image_fst)
  also have "\<dots> = {k \<in> district_key ` set rs. \<not> inherited k}"
    by (auto simp: dom_def map_of_foldl_city_step split: if_splits)
  finally show ?thesis .
qed

lemma combineCityData_districts:
  assumes "t \<noteq> ''booking''"
  shows "map city.district (combineCityData b q t)
           = map fst (Object_entries (foldl (city_step t) [] (b @ q)))"
proof -
  define rs where "rs = b @ q"
  have "city.district (snd p) = fst p" if "p \<in> set (foldl (city_step t) [] rs)" for p
    using fold_city_step_entry [of "fst p" "snd p" t rs] that assms
    by (simp add: foldl_add_city new_city_def)
  then show ?thesis
    by (simp add: combineCityData_def Object_values_def set_Object_entries rs_def)
qed

text \<open>
  The districts of the output: the keys of the rows, but for the names that every object
  inherits, each once.
\<close>

lemma set_cityData_districts:
  "set (map city.district (cityData b q))
     = {k \<in> district_key ` set (b @ q). \<not> inherited k}"
proof -
  have "set (map city.district (cityData b q))
          = fst ` set (foldl (city_step ''both'') [] (b @ q))"
    by (simp add: cityData_def combineCityData_districts set_Object_entries)
  then show ?thesis
    by (simp only: fold_city_step_keys)
qed

lemma distinct_cityData_districts: "distinct (map city.district (cityData b q))"
proof -
  have "distinct (map fst (Object_entries (foldl (city_step ''both'') [] (b @ q))))"
    by (rule distinct_keys_Object_entries, rule distinct_keys_foldl_city_step) simp
  then show ?thesis
    by (simp add: cityData_def combineCityData_districts)
qed

text \<open>Two confirmed-order rows and one pipeline row, merged.\<close>

lemma cityData_example:
  "cityData
     [\<lparr> city_row.district = Some ''Sivakasi'', city_row.count = PgText ''2'',
        city_row.total_amount = PgText ''120.50'' \<rparr>,
      \<lparr> city_row.district = None, city_row.count = PgText ''1'',
        city_row.total_amount = PgText ''50'' \<rparr>]
     [\<lparr> city_row.district = Some ''Sivakasi'', city_row.count = PgText ''3'',
        city_row.total_amount = PgText ''30'' \<rparr>]
   = [\<lparr> city.district = ''Sivakasi'', booking_count = Fin 0, quotation_count = Fin 5,
         booking_amount = Fin 0, quotation_amount = Fin (301 / 2) \<rparr>,
      \<lparr> city.district = ''Unknown'', booking_count = Fin 0, quotation_count = Fin 1,
         booking_amount = Fin 0, quotation_amount = Fin 50 \<rparr>]"
  by code_simp

text \<open>
  C1.  The claim: for every district of the confirmed-order rows or the pipeline rows,
  the entry of \<open>cities\<close> has the booking rows' sums in \<open>booking_count\<close> and
  \<open>booking_amount\<close> and the quotation rows' sums in \<open>quotation_count\<close> and
  \<open>quotation_amount\<close>.  The handler calls \<open>combineCityData\<close> with the type \<open>'both'\<close>,
  so on the scenario of the specification (one order without district, total 50; one
  quotation in district X, total 30) the order is counted as a quotation: the entry
  \<open>Unknown\<close> has \<open>booking_count\<close> 0 and \<open>quotation_count\<close> 1.
\<close>

theorem cityData_counts_bookings_as_quotations:
  "cityData
     [\<lparr> city_row.district = None, city_row.count = PgText ''1'',
        city_row.total_amount = PgText ''50'' \<rparr>]
     [\<lparr> city_row.district = Some ''X'', city_row.count = PgText ''1'',
        city_row.total_amount = PgText ''30'' \<rparr>]
   = [\<lparr> city.district = ''Unknown'', booking_count = Fin 0, quotation_count = Fin 1,
         booking_amount = Fin 0, quotation_amount = Fin 50 \<rparr>,
      \<lparr> city.district = ''X'', booking_count = Fin 0, quotation_count = Fin 1,
         booking_amount = Fin 0, quotation_amount = Fin 30 \<rparr>]"
  by code_simp

text \<open>
  C10.  Every entry of \<open>cities\<close> has \<open>booking_count\<close> 0 and \<open>booking_amount\<close> 0, and its
  \<open>quotation_count\<close> and \<open>quotation_amount\<close> are the sums, in row order, of
  \<open>parseInt(count)\<close> and \<open>parseFloat(total_amount)\<close> over the rows of its district from
  the confirmed-order query and the pipeline query together.
\<close>

theorem cityData_all_in_quotation_counters:
  "\<forall>c \<in> set (cityData bookingRows quotationRows).
     booking_count c = Fin 0 \<and> booking_amount c = Fin 0
     \<and> quotation_count c =
         foldl js_add (Fin 0)
           (map (\<lambda>r. num (parseInt (city_row.count r)))
              (filter (\<lambda>r. district_key r = city.district c) (bookingRows @ quotationRows)))
     \<and> quotation_amount c =
         foldl js_add (Fin 0)
           (map (\<lambda>r. parseFloat (city_row.total_amount r))
              (filter (\<lambda>r. district_key r = city.district c) (bookingRows @ quotationRows)))"
proof
  fix c
  define rs where "rs = bookingRows @ quotationRows"
  assume "c \<in> set (cityData bookingRows quotationRows)"
  then obtain k where "(k, c) \<in> set (foldl (city_step ''both'') [] rs)"
    by (auto simp: cityData_def combineCityData_def Object_values_def set_Object_entries rs_def)
  then have "c = foldl (\<lambda>c r. add_city ''both'' r c) (new_city k)
                   (filter (\<lambda>r. district_key r = k) rs)"
    using fold_city_step_entry by blast
  then have "booking_count c = Fin 0 \<and> booking_amount c = Fin 0
     \<and> quotation_count c =
         foldl js_add (Fin 0)
           (map (\<lambda>r. num (parseInt (city_row.count r)))
              (filter (\<lambda>r. district_key r = city.district c) rs))
     \<and> quotation_amount c =
         foldl js_add (Fin 0)
           (map (\<lambda>r. parseFloat (city_row.total_amount r))
              (filter (\<lambda>r. district_key r = city.district c) rs))"
    by (simp add: foldl_add_city new_city_def)
  then show "booking_count c = Fin 0 \<and> booking_amount c = Fin 0
     \<and> quotation_count c =
         foldl js_add (Fin 0)
           (map (\<lambda>r. num (parseInt (city_row.count r)))
              (filter (\<lambda>r. district_key r = city.district c) (bookingRows @ quotationRows)))
     \<and> quotation_amount c =
         foldl js_add (Fin 0)
           (map (\<lambda>r. parseFloat (city_row.total_amount r))
              (filter (\<lambda>r. district_key r = city.district c) (bookingRows @ quotationRows)))"
    by (simp only: rs_def)
qed

text \<open>
  On the example: the entry of Sivakasi is in the output, and the sums over its three
  rows are 5 and 150.5.
\<close>

theorem cityData_all_in_quotation_counters_witness:
  "\<lparr> city.district = ''Sivakasi'', booking_count = Fin 0, quotation_count = Fin 5,
      booking_amount = Fin 0, quotation_amount = Fin (301 / 2) \<rparr>
     \<in> set (cityData
          [\<lparr> city_row.district = Some ''Sivakasi'', city_row.count = PgText ''2'',
             city_row.total_amount = PgText ''120.50'' \<rparr>,
           \<lparr> city_row.district = None, city_row.count = PgText ''1'',
             city_row.total_amount = PgText ''50'' \<rparr>]
          [\<lparr> city_row.district = Some ''Sivakasi'', city_row.count = PgText ''3'',
             city_row.total_amount = PgText ''30'' \<rparr>])
   \<and> foldl js_add (Fin 0)
       (map (\<lambda>r. num (parseInt (city_row.count r)))
          (filter (\<lambda>r. district_key r = ''Sivakasi'')
             ([\<lparr> city_row.district = Some ''Sivakasi'', city_row.count = PgText ''2'',
                 city_row.total_amount = PgText ''120.50'' \<rparr>,
               \<lparr> city_row.district = None, city_row.count = PgText ''1'',
                 city_row.total_amount = PgText ''50'' \<rparr>]
              @ [\<lparr> city_row.district = Some ''Sivakasi'', city_row.count = PgText ''3'',
                   city_row.total_amount = PgText ''30'' \<rparr>]))) = Fin 5
   \<and> foldl js_add (Fin 0)
       (map (\<lambda>r. parseFloat (city_row.total_amount r))
          (filter (\<lambda>r. district_key r = ''Sivakasi'')
             ([\<lparr> city_row.district = Some ''Sivakasi'', city_row.count = PgText ''2'',
                 city_row.total_amount = PgText ''120.50'' \<rparr>,
               \<lparr> city_row.district = None, city_row.count = PgText ''1'',
                 city_row.total_amount = PgText ''50'' \<rparr>]
              @ [\<lparr> city_row.district = Some ''Sivakasi'', city_row.count = PgText ''3'',
                   city_row.total_amount = PgText ''30'' \<rparr>]))) = Fin (301 / 2)"
proof -
  let ?b = "[\<lparr> city_row.district = Some ''Sivakasi'', city_row.count = PgText ''2'',
               city_row.total_amount = PgText ''120.50'' \<rparr>,
             \<lparr> city_row.district = None, city_row.count = PgText ''1'',
               city_row.total_amount = PgText ''50'' \<rparr>]"
  let ?q = "[\<lparr> city_row.district = Some ''Sivakasi'', city_row.count = PgText ''3'',
               city_row.total_amount = PgText ''30'' \<rparr>]"
  let ?c = "\<lparr> city.district = ''Sivakasi'', booking_count = Fin 0, quotation_count = Fin 5,
              booking_amount = Fin 0, quotation_amount = Fin (301 / 2) \<rparr>"
  have mem: "?c \<in> set (cityData ?b ?q)"
    by (simp add: cityData_example)
  from cityData_all_in_quotation_counters [of ?b ?q] mem
  have "quotation_count ?c =
          foldl js_add (Fin 0)
            (map (\<lambda>r. num (parseInt (city_row.count r)))
               (filter (\<lambda>r. district_key r = city.district ?c) (?b @ ?q)))
        \<and> quotation_amount ?c =
          foldl js_add (Fin 0)
            (map (\<lambda>r. parseFloat (city_row.total_amount r))
               (filter (\<lambda>r. district_key r = city.district ?c) (?b @ ?q)))"
    by blast
  with mem show ?thesis
    by simp
qed

text \<open>
  C8.  The claim: \<open>cities\<close> has exactly one entry per district of the union of the two
  row sets, an absent district counting as \<open>Unknown\<close>.  As stated it fails: a row whose
  district is the empty string is filed under \<open>Unknown\<close> too (\<open>||\<close> takes the empty
  string for absent), and a row whose district is a name that every object inherits
  (\<open>constructor\<close>) gets no entry.
\<close>

theorem cityData_districts_counterexample:
  "set (map city.district
         (cityData
            [\<lparr> city_row.district = Some '''', city_row.count = PgText ''1'',
               city_row.total_amount = PgText ''10'' \<rparr>] []))
     \<noteq> spec_district `
         set ([\<lparr> city_row.district = Some '''', city_row.count = PgText ''1'',
                 city_row.total_amount = PgText ''10'' \<rparr>] @ [])
   \<and> set (map city.district
           (cityData
              [\<lparr> city_row.district = Some ''constructor'', city_row.count = PgText ''1'',
                 city_row.total_amount = PgText ''10'' \<rparr>] []))
       \<noteq> spec_district `
           set ([\<lparr> city_row.district = Some ''constructor'', city_row.count = PgText ''1'',
                   city_row.total_amount = PgText ''10'' \<rparr>] @ [])"
proof -
  have empty_string:
    "set (map city.district
       (cityData
          [\<lparr> city_row.district = Some '''', city_row.count = PgText ''1'',
             city_row.total_amount = PgText ''10'' \<rparr>] [])) = {''Unknown''}"
    by (simp only: set_cityData_districts)
       (auto simp: district_key_def inherited_def Object_prototype_names_def)
  have inherited_name:
    "set (map city.district
       (cityData
          [\<lparr> city_row.district = Some ''constructor'', city_row.count = PgText ''1'',
             city_row.total_amount = PgText ''10'' \<rparr>] [])) = {}"
    by (simp only: set_cityData_districts)
       (auto simp: district_key_def inherited_def Object_prototype_names_def)
  show ?thesis
    by (simp only: empty_string inherited_name) (simp add: spec_district_def)
qed

text \<open>
  C8, amended.  With an absent or empty district counting as \<open>Unknown\<close>, and when no
  district is a name that every object inherits from \<open>Object.prototype\<close>, \<open>cities\<close> has
  exactly one entry per district of the union of the two row sets: none twice, none
  dropped, none added.
\<close>

theorem cityData_one_entry_per_district:
  assumes "\<forall>r \<in> set (bookingRows @ quotationRows). \<not> inherited (district_key r)"
  shows "distinct (map city.district (cityData bookingRows quotationRows))
         \<and> set (map city.district (cityData bookingRows quotationRows))
             = district_key ` set (bookingRows @ quotationRows)"
proof -
  have "{k \<in> district_key ` set (bookingRows @ quotationRows). \<not> inherited k}
          = district_key ` set (bookingRows @ quotationRows)"
    using assms by blast
  then show ?thesis
    by (simp only: distinct_cityData_districts set_cityData_districts simp_thms)
qed

theorem cityData_one_entry_per_district_witness:
  "distinct (map city.district
     (cityData
        [\<lparr> city_row.district = Some ''Sivakasi'', city_row.count = PgText ''2'',
           city_row.total_amount = PgText ''120.50'' \<rparr>,
         \<lparr> city_row.district = None, city_row.count = PgText ''1'',
           city_row.total_amount = PgText ''50'' \<rparr>]
        [\<lparr> city_row.district = Some ''Sivakasi'', city_row.count = PgText ''3'',
           city_row.total_amount = PgText ''30'' \<rparr>]))
   \<and> set (map city.district
       (cityData
          [\<lparr> city_row.district = Some ''Sivakasi'', city_row.count = PgText ''2'',
             city_row.total_amount = PgText ''120.50'' \<rparr>,
           \<lparr> city_row.district = None, city_row.count = PgText ''1'',
             city_row.total_amount = PgText ''50'' \<rparr>]
          [\<lparr> city_row.district = Some ''Sivakasi'', city_row.count = PgText ''3'',
             city_row.total_amount = PgText ''30'' \<rparr>]))
     = {''Sivakasi'', ''Unknown''}"
proof -
  let ?b = "[\<lparr> city_row.district = Some ''Sivakasi'', city_row.count = PgText ''2'',
               city_row.total_amount = PgText ''120.50'' \<rparr>,
             \<lparr> city_row.district = None, city_row.count = PgText ''1'',
               city_row.total_amount = PgText ''50'' \<rparr>]"
  let ?q = "[\<lparr> city_row.district = Some ''Sivakasi'', city_row.count = PgText ''3'',
               city_row.total_amount = PgText ''30'' \<rparr>]"
  have no_inherited: "\<forall>r \<in> set (?b @ ?q). \<not> inherited (district_key r)"
    by (simp add: district_key_def inherited_def Object_prototype_names_def)
  have "district_key ` set (?b @ ?q) = {''Sivakasi'', ''Unknown''}"
    by (auto simp: district_key_def)
  with cityData_one_entry_per_district [OF no_inherited] show ?thesis
    by simp
qed

text \<open>
  C6.  The claim: every numeric field is zero-defaulted before arithmetic in every facet,
  the regional merge included, so that no output is \<open>NaN\<close>.  The merge adds
  \<open>parseInt(row.count)\<close> and \<open>parseFloat(row.total_amount)\<close> as they are: a total that
  the database delivers as \<open>NaN\<close> (the sum of a numeric \<open>NaN\<close>), or a \<open>null\<close>, makes
  \<open>quotation_amount\<close> \<open>NaN\<close>; a \<open>null\<close> count makes \<open>quotation_count\<close> \<open>NaN\<close>.
\<close>

theorem cityData_amount_not_zero_defaulted:
  "cityData
     [\<lparr> city_row.district = Some ''X'', city_row.count = PgText ''1'',
        city_row.total_amount = PgText ''NaN'' \<rparr>]
     [\<lparr> city_row.district = Some ''Y'', city_row.count = PgNull,
        city_row.total_amount = PgNull \<rparr>]
   = [\<lparr> city.district = ''X'', booking_count = Fin 0, quotation_count = Fin 1,
         booking_amount = Fin 0, quotation_amount = NaN \<rparr>,
      \<lparr> city.district = ''Y'', booking_count = Fin 0, quotation_count = NaN,
         booking_amount = Fin 0, quotation_amount = NaN \<rparr>]"
  by code_simp

section \<open>Profitability and trends: the paid amount\<close>

text \<open>A trend point never has more paid than the total, whatever the row holds.\<close>

lemma js_or0_not_NaN: "js_or0 x \<noteq> NaN"
  by (simp add: js_or0_def)

lemma Math_min_le: "a \<noteq> NaN \<Longrightarrow> b \<noteq> NaN \<Longrightarrow> js_le (Math_min a b) b"
  by (cases a; cases b) (simp_all add: Math_min_def)

lemma trend_paid_capped:
  "js_le (trend.amount_paid (trend_of row)) (trend.total_amount (trend_of row))"
  by (simp add: trend_of_def Let_def Math_min_le js_or0_not_NaN)

text \<open>
  Its unpaid amount is not negative as long as the total is finite (two infinite sums of
  the same sign leave \<open>NaN\<close>).
\<close>

lemma Math_max_ge: "b \<noteq> NaN \<Longrightarrow> js_le (Fin 0) (Math_max (Fin 0) b)"
  by (cases b) (simp_all add: Math_max_def)

lemma js_sub_Fin_not_NaN: "b \<noteq> NaN \<Longrightarrow> js_sub (Fin a) b \<noteq> NaN"
  by (cases b) (simp_all add: js_sub_def)

lemma trend_unpaid_not_negative:
  assumes "trend.total_amount (trend_of row) = Fin t"
  shows "js_le (Fin 0) (trend.unpaid_amount (trend_of row))"
proof -
  from assms have "js_or0 (parseFloat (trend_row.total_amount row)) = Fin t"
    by (simp add: trend_of_def Let_def)
  then show ?thesis
    by (simp add: trend_of_def Let_def Math_max_ge js_sub_Fin_not_NaN js_or0_not_NaN)
qed

text \<open>
  C2.  The claim: in the profitability record and in every trend point
  \<open>amount_paid \<le> total_amount\<close>, and one confirmed order with total 100 and 150 paid
  gives the profitability \<open>{total_amount: 100, amount_paid: 100, unpaid_amount: 0}\<close>.
  The trend point caps the paid amount with \<open>Math.min\<close>; the profitability record
  passes it on as it is, so the sums 100 and 150 give \<open>amount_paid\<close> 150 there, and 100
  in the trend point of the same sums.
\<close>

theorem profitData_paid_not_capped:
  "profitData
     [\<lparr> profit_row.total_amount = PgText ''100'', profit_row.amount_paid = PgText ''150'' \<rparr>]
   = \<lparr> profit.total_amount = Fin 100, profit.amount_paid = Fin 150,
       profit.unpaid_amount = Fin 0 \<rparr>
   \<and> trendDataArray
       [\<lparr> trend_row.month = Some ''2024-01'', trend_row.volume = PgText ''1'',
          trend_row.total_amount = PgText ''100'', trend_row.amount_paid = PgText ''150'' \<rparr>]
     = [\<lparr> trend.month = Some ''2024-01'', trend.volume = Fin 1,
           trend.total_amount = Fin 100, trend.amount_paid = Fin 100,
           trend.unpaid_amount = Fin 0 \<rparr>]"
  by code_simp

section \<open>The probe's status test\<close>

text \<open>
  C4.  The claim: every query, the probe included, lower-cases \<open>status\<close> before it tests
  membership in the fixed sets.  The probe compares the stored value as it is: a booking
  with status \<open>Booked\<close> passes the status test of the regional query and fails the
  probe's, which the same booking with status \<open>booked\<close> passes; likewise for a
  quotation with status \<open>Pending\<close>.
\<close>

theorem validateProducts_status_case_sensitive:
  "\<not> validateProducts_bookings_status (Some ''Booked'')
   \<and> validateProducts_bookings_status (Some ''booked'')
   \<and> cityBookings_status (Some ''Booked'')
   \<and> \<not> validateProducts_fwcquotations_status (Some ''Pending'')
   \<and> validateProducts_fwcquotations_status (Some ''pending'')
   \<and> cityQuotations_status (Some ''Pending'')"
  by code_simp

section \<open>Sorting by insertion\<close>

text \<open>
  Insertion keeps the elements, and sorts them whenever the comparison is consistent
  on them: never both ways between two elements, and transitive where it says
  \<open>not after\<close>.
\<close>

lemma set_insert_by: "set (insert_by after x ys) = insert x (set ys)"
  by (induction ys) auto

lemma mset_insert_by: "mset (insert_by after x ys) = add_mset x (mset ys)"
  by (induction ys) auto

lemma mset_foldr_insert_by: "mset (foldr (insert_by after) xs []) = mset xs"
  by (induction xs) (simp_all add: mset_insert_by)

lemma sorted_insert_by_on:
  assumes asym: "\<And>a b. a \<in> A \<Longrightarrow> b \<in> A \<Longrightarrow> after a b \<Longrightarrow> \<not> after b a"
    and trans: "\<And>a b c. a \<in> A \<Longrightarrow> b \<in> A \<Longrightarrow> c \<in> A \<Longrightarrow>
                  \<not> after a b \<Longrightarrow> \<not> after b c \<Longrightarrow> \<not> after a c"
    and mem: "x \<in> A" "set ys \<subseteq> A"
    and sorted: "sorted_wrt (\<lambda>a b. \<not> after a b) ys"
  shows "sorted_wrt (\<lambda>a b. \<not> after a b) (insert_by after x ys)"
  using mem(2) sorted
proof (induction ys)
  case Nil
  show ?case by simp
next
  case (Cons y ys)
  show ?case
  proof (cases "after x y")
    case True
    with Cons asym [of x y] mem(1) show ?thesis
      by (auto simp: set_insert_by)
  next
    case False
    have "\<not> after x z" if "z \<in> set ys" for z
      using trans [of x y z] False Cons.prems mem(1) that by auto
    with False Cons.prems show ?thesis
      by auto
  qed
qed

lemma sorted_foldr_insert_by_on:
  assumes "\<And>a b. a \<in> A \<Longrightarrow> b \<in> A \<Longrightarrow> after a b \<Longrightarrow> \<not> after b a"
    and "\<And>a b c. a \<in> A \<Longrightarrow> b \<in> A \<Longrightarrow> c \<in> A \<Longrightarrow>
           \<not> after a b \<Longrightarrow> \<not> after b c \<Longrightarrow> \<not> after a c"
    and "set xs \<subseteq> A"
  shows "sorted_wrt (\<lambda>a b. \<not> after a b) (foldr (insert_by after) xs [])"
  using assms(3)
proof (induction xs)
  case Nil
  show ?case by simp
next
  case (Cons x xs)
  have "set (foldr (insert_by after) xs []) \<subseteq> A"
    using Cons.prems mset_foldr_insert_by [of after xs] by (metis set_mset_mset set_subset_Cons subset_trans)
  then show ?case
    using sorted_insert_by_on [of A after x, OF assms(1,2)] Cons by simp
qed

section \<open>Product sales: the sums and the order\<close>

lemma map_of_set_own:
  "map_of (set_own m k v) k' = (if k' = k then Some v else map_of m k')"
proof (cases "has_own m k")
  case True
  then obtain w where "map_of m k = Some w"
    by (auto simp: has_own_def)
  then show ?thesis
    using True map_of_map_upd [of k "\<lambda>_. v" m k'] by (simp add: set_own_def)
next
  case False
  then show ?thesis
    by (auto simp: set_own_def has_own_def map_add_def split: option.splits)
qed

lemma keys_set_own:
  "map fst (set_own m k v) = (if has_own m k then map fst m else map fst m @ [k])"
  by (auto simp: set_own_def case_prod_unfold comp_def)

lemma not_inherited_proto: "\<not> inherited n \<Longrightarrow> n \<noteq> ''__proto__''"
  by (auto simp: inherited_def Object_prototype_names_def)

lemma product_step_regular:
  assumes "map_option trim (product_row.productname r) = Some n" and "n \<noteq> []"
    and "\<not> inherited n" and "\<forall>v \<in> snd ` set acc. \<exists>x. v = QNum x"
  shows "product_step acc r =
           set_own acc n
             (QNum ((case map_of acc n of Some (QNum x) \<Rightarrow> x | _ \<Rightarrow> 0)
                     + parseInt_or0 (product_row.quantity r)))"
proof (cases "map_of acc n")
  case None
  with assms(2,3) show ?thesis
    by (simp add: product_step_def Let_def assms(1) not_inherited_proto
          del: map_option_eq_Some)
next
  case (Some v)
  then have "v \<in> snd ` set acc"
    by (metis map_of_SomeD snd_conv image_eqI)
  with assms(4) obtain x where "v = QNum x"
    by blast
  with Some assms(2,3) show ?thesis
    by (simp add: product_step_def Let_def assms(1) not_inherited_proto
          del: map_option_eq_Some)
qed

lemma product_step_skip:
  assumes "map_option trim (product_row.productname r) = None
           \<or> map_option trim (product_row.productname r) = Some []"
  shows "product_step acc r = acc"
  using assms by (auto simp: product_step_def Let_def)

lemma foldl_product_step:
  assumes "\<forall>r \<in> set rows. \<forall>n. map_option trim (product_row.productname r) = Some n
             \<longrightarrow> \<not> inherited n"
    and "\<forall>v \<in> snd ` set acc. \<exists>x. v = QNum x"
    and "distinct (map fst acc)" and "[] \<notin> fst ` set acc"
  shows "distinct (map fst (foldl product_step acc rows))
    \<and> map_of (foldl product_step acc rows) k =
       (case map_of acc k of
          Some v \<Rightarrow>
            Some (QNum ((case v of QNum x \<Rightarrow> x | QStr _ \<Rightarrow> 0)
              + sum_list (map (\<lambda>r. parseInt_or0 (product_row.quantity r))
                  (filter (\<lambda>r. map_option trim (product_row.productname r) = Some k) rows))))
        | None \<Rightarrow>
            if k \<noteq> [] \<and> (\<exists>r \<in> set rows. map_option trim (product_row.productname r) = Some k)
            then Some (QNum (sum_list (map (\<lambda>r. parseInt_or0 (product_row.quantity r))
                  (filter (\<lambda>r. map_option trim (product_row.productname r) = Some k) rows))))
            else None)"
  using assms
proof (induction rows arbitrary: acc)
  case Nil
  show ?case
  proof (cases "map_of acc k")
    case None
    with Nil show ?thesis by simp
  next
    case (Some v)
    then have "v \<in> snd ` set acc"
      by (metis map_of_SomeD snd_conv image_eqI)
    with Nil.prems(2) obtain x where "v = QNum x" by blast
    with Some Nil show ?thesis by simp
  qed
next
  case (Cons r rows)
  let ?name = "map_option trim (product_row.productname r)"
  have rest: "\<forall>r \<in> set rows. \<forall>n. map_option trim (product_row.productname r) = Some n
                \<longrightarrow> \<not> inherited n"
    using Cons.prems(1) by simp
  show ?case
  proof (cases "?name = None \<or> ?name = Some []")
    case True
    then have step: "product_step acc r = acc"
      by (rule product_step_skip)
    have no_empty: "map_of acc [] = None"
      using Cons.prems(4) by (simp add: map_of_eq_None_iff)
    from True have "?name \<noteq> Some k \<or> k = []"
      by auto
    then show ?thesis
      using Cons.IH [OF rest Cons.prems(2) Cons.prems(3) Cons.prems(4)] step True no_empty
      by (auto simp del: map_option_eq_Some split: option.splits)
  next
    case False
    then obtain n where n: "?name = Some n" "n \<noteq> []"
      by (cases ?name) auto
    then have reg: "\<not> inherited n"
      using Cons.prems(1) by simp
    let ?v = "QNum ((case map_of acc n of Some (QNum x) \<Rightarrow> x | _ \<Rightarrow> 0)
                     + parseInt_or0 (product_row.quantity r))"
    have step: "product_step acc r = set_own acc n ?v"
      using n reg Cons.prems(2) by (rule product_step_regular)
    have vals: "\<forall>v \<in> snd ` set (set_own acc n ?v). \<exists>x. v = QNum x"
      using Cons.prems(2) by (auto simp: set_own_def split: if_splits)
    have dist: "distinct (map fst (set_own acc n ?v))"
      using Cons.prems(3) by (simp add: keys_set_own has_own_iff)
    have no_empty: "[] \<notin> fst ` set (set_own acc n ?v)"
      using Cons.prems(4) n(2) by (auto simp: set_own_def split: if_splits)
    show ?thesis
      using Cons.IH [OF rest vals dist no_empty] n
      by (auto simp: step map_of_set_own simp del: map_option_eq_Some
            split: option.splits jsquantity.splits)
  qed
qed

text \<open>
  When no trimmed product name is a name that every object inherits, the facet is what
  the specification describes: one entry per trimmed, non-blank name, with the sum of
  the quantities of its line items (\<open>parseInt(quantity) || 0\<close> each), in descending
  order of quantity.
\<close>

lemma productData_regular_names:
  assumes "\<forall>r \<in> set rows. \<forall>n. map_option trim (product_row.productname r) = Some n
             \<longrightarrow> \<not> inherited n"
  shows "distinct (map product.productname (productData rows))"
    and "set (map product.productname (productData rows))
           = {n. n \<noteq> [] \<and> (\<exists>r \<in> set rows. map_option trim (product_row.productname r) = Some n)}"
    and "\<forall>p \<in> set (productData rows).
           product.quantity p =
             QNum (sum_list (map (\<lambda>r. parseInt_or0 (product_row.quantity r))
               (filter (\<lambda>r. map_option trim (product_row.productname r)
                              = Some (product.productname p)) rows)))"
    and "sorted_wrt (\<lambda>a b. \<exists>x y. product.quantity a = QNum x \<and> product.quantity b = QNum y
                               \<and> y \<le> x) (productData rows)"
proof -
  let ?S = "productSummary rows"
  let ?mk = "\<lambda>(name, q). \<lparr> product.productname = name, product.quantity = q \<rparr>"
  let ?P = "map ?mk (Object_entries ?S)"
  let ?total = "\<lambda>k. sum_list (map (\<lambda>r. parseInt_or0 (product_row.quantity r))
               (filter (\<lambda>r. map_option trim (product_row.productname r) = Some k) rows))"
  have fold: "distinct (map fst ?S)"
    "map_of ?S k =
       (if k \<noteq> [] \<and> (\<exists>r \<in> set rows. map_option trim (product_row.productname r) = Some k)
        then Some (QNum (?total k)) else None)" for k
    using foldl_product_step [OF assms, of "[]" k] by (simp_all add: productSummary_def)
  have mset: "mset (productData rows) = mset ?P"
    by (simp add: productData_def Array_sort_def mset_foldr_insert_by)
  then have set: "set (productData rows) = set ?P"
    by (metis set_mset_mset)
  have names: "map product.productname ?P = map fst (Object_entries ?S)"
    by (simp add: case_prod_unfold comp_def)
  have keys: "mset (map product.productname (productData rows)) = mset (map fst ?S)"
    using mset names by (metis mset_map mset_Object_entries)
  then show "distinct (map product.productname (productData rows))"
    using fold(1) by (metis mset_eq_imp_distinct_iff)
  from keys have "set (map product.productname (productData rows)) = set (map fst ?S)"
    by (metis set_mset_mset)
  then have "set (map product.productname (productData rows)) = dom (map_of ?S)"
    by (simp add: dom_map_of_conv_image_fst)
  then show "set (map product.productname (productData rows))
           = {n. n \<noteq> [] \<and> (\<exists>r \<in> set rows. map_option trim (product_row.productname r) = Some n)}"
    by (auto simp: dom_def fold(2) simp del: map_option_eq_Some)
  have entry: "product.quantity p = QNum (?total (product.productname p))" if "p \<in> set ?P" for p
  proof -
    from that obtain k v where kv: "(k, v) \<in> set ?S" "p = ?mk (k, v)"
      by (auto simp: set_Object_entries)
    with fold(1) have "map_of ?S k = Some v"
      by simp
    then have "v = QNum (?total k)"
      by (simp add: fold(2) split: if_splits)
    with kv show ?thesis
      by simp
  qed
  with set show "\<forall>p \<in> set (productData rows).
           product.quantity p =
             QNum (sum_list (map (\<lambda>r. parseInt_or0 (product_row.quantity r))
               (filter (\<lambda>r. map_option trim (product_row.productname r)
                              = Some (product.productname p)) rows)))"
    by simp
  define A :: "product set" where "A = {p. \<exists>x. product.quantity p = QNum x}"
  have sub: "set ?P \<subseteq> A"
    using entry by (auto simp: A_def)
  have "sorted_wrt (\<lambda>a b. \<not> quantity_after a b) (foldr (insert_by quantity_after) ?P [])"
  proof (rule sorted_foldr_insert_by_on [of A])
    show "set ?P \<subseteq> A" by (rule sub)
  qed (auto simp: A_def quantity_after_def)
  then have sorted: "sorted_wrt (\<lambda>a b. \<not> quantity_after a b) (productData rows)"
    by (simp add: productData_def Array_sort_def)
  have numeric: "\<exists>x y. product.quantity a = QNum x \<and> product.quantity b = QNum y \<and> y \<le> x"
    if "a \<in> set (productData rows)" "b \<in> set (productData rows)" "\<not> quantity_after a b" for a b
  proof -
    from that(1,2) sub set have "a \<in> A" "b \<in> A"
      by blast+
    then obtain x y where "product.quantity a = QNum x" "product.quantity b = QNum y"
      by (auto simp: A_def)
    with that(3) show ?thesis
      by (simp add: quantity_after_def)
  qed
  show "sorted_wrt (\<lambda>a b. \<exists>x y. product.quantity a = QNum x \<and> product.quantity b = QNum y
                               \<and> y \<le> x) (productData rows)"
    by (rule sorted_wrt_mono_rel [OF _ sorted]) (rule numeric)
qed

text \<open>
  C7.  The claim: the products facet sums the quantities per trimmed, non-blank product
  name, and is sorted by descending quantity.  For a product whose name is a property
  every object inherits, \<open>acc[name] || 0\<close> is the inherited function and \<open>+\<close>
  concatenates: two line items \<open>constructor\<close> with quantities 3 and 4 give one entry
  whose quantity is a string, not 7.
\<close>

theorem productData_inherited_name:
  "productData
     [\<lparr> product_row.productname = Some ''constructor'', product_row.quantity = PgInt4 3 \<rparr>,
      \<lparr> product_row.productname = Some ''constructor'', product_row.quantity = PgInt4 4 \<rparr>]
   = [\<lparr> product.productname = ''constructor'',
         product.quantity = QStr ''function Object() { [native code] }34'' \<rparr>]"
  by code_simp

section \<open>Quotation conversion: the three buckets\<close>

lemma foldl_add_bucket:
  "foldl (\<lambda>b r. add_bucket r b) b rs =
     \<lparr> bucket.count =
         foldl js_add (bucket.count b) (map (\<lambda>r. num (parseInt (status_row.count r))) rs),
       bucket.total_amount =
         foldl js_add (bucket.total_amount b)
           (map (\<lambda>r. js_or0 (parseFloat (status_row.total_amount r))) rs) \<rparr>"
  by (induction rs arbitrary: b) (simp_all add: add_bucket_def)

lemma foldl_quotation_step:
  "foldl quotation_step q rows =
     \<lparr> pending = foldl (\<lambda>b r. add_bucket r b) (pending q)
                   (filter (\<lambda>r. status_key r = ''pending'') rows),
       booked = foldl (\<lambda>b r. add_bucket r b) (booked q)
                  (filter (\<lambda>r. status_key r = ''booked'') rows),
       canceled = foldl (\<lambda>b r. add_bucket r b) (canceled q)
                    (filter (\<lambda>r. status_key r = ''canceled'') rows) \<rparr>"
  by (induction rows arbitrary: q) (simp_all add: quotation_step_def Let_def)

lemma status_key_pending:
  "status_key r = ''pending'' \<longleftrightarrow> status_row.status r = Some ''pending''"
  by (simp add: status_key_def split: option.splits)

lemma status_key_booked:
  "status_key r = ''booked'' \<longleftrightarrow> status_row.status r = Some ''booked''"
  by (simp add: status_key_def split: option.splits)

lemma status_key_canceled:
  "status_key r = ''canceled'' \<longleftrightarrow>
     status_row.status r = None \<or> status_row.status r = Some []
       \<or> status_row.status r = Some ''canceled''"
  by (simp add: status_key_def split: option.splits)

text \<open>
  C5.  The claim: a row of the status-grouped query is added to the bucket its status
  names, and a row whose status is none of \<open>pending\<close>, \<open>booked\<close>, \<open>canceled\<close> - a
  \<open>null\<close> status included - is added to none.  As stated it fails: \<open>row.status ||
  'canceled'\<close> files a row without status under \<open>canceled\<close>.
\<close>

theorem quotationSummary_null_status_counterexample:
  "canceled
     (quotationSummary
        [\<lparr> status_row.status = None, status_row.count = PgText ''2'',
           status_row.total_amount = PgText ''30'' \<rparr>])
   = \<lparr> bucket.count = Fin 2, bucket.total_amount = Fin 30 \<rparr>"
  by code_simp

text \<open>
  C5, amended.  The three buckets start at zero.  Each row is added to the bucket its
  status names when the status is \<open>pending\<close>, \<open>booked\<close> or \<open>canceled\<close>; a row whose
  status is \<open>null\<close> or empty is added to \<open>canceled\<close>; a row with any other status is
  added to no bucket.  So each bucket holds the sums, in row order, over exactly those
  rows.
\<close>

theorem quotationSummary_buckets:
  "quotationSummary rows =
     \<lparr> pending =
         \<lparr> bucket.count =
             foldl js_add (Fin 0)
               (map (\<lambda>r. num (parseInt (status_row.count r)))
                  (filter (\<lambda>r. status_row.status r = Some ''pending'') rows)),
           bucket.total_amount =
             foldl js_add (Fin 0)
               (map (\<lambda>r. js_or0 (parseFloat (status_row.total_amount r)))
                  (filter (\<lambda>r. status_row.status r = Some ''pending'') rows)) \<rparr>,
       booked =
         \<lparr> bucket.count =
             foldl js_add (Fin 0)
               (map (\<lambda>r. num (parseInt (status_row.count r)))
                  (filter (\<lambda>r. status_row.status r = Some ''booked'') rows)),
           bucket.total_amount =
             foldl js_add (Fin 0)
               (map (\<lambda>r. js_or0 (parseFloat (status_row.total_amount r)))
                  (filter (\<lambda>r. status_row.status r = Some ''booked'') rows)) \<rparr>,
       canceled =
         \<lparr> bucket.count =
             foldl js_add (Fin 0)
               (map (\<lambda>r. num (parseInt (status_row.count r)))
                  (filter (\<lambda>r. status_row.status r = None \<or> status_row.status r = Some []
                                \<or> status_row.status r = Some ''canceled'') rows)),
           bucket.total_amount =
             foldl js_add (Fin 0)
               (map (\<lambda>r. js_or0 (parseFloat (status_row.total_amount r)))
                  (filter (\<lambda>r. status_row.status r = None \<or> status_row.status r = Some []
                                \<or> status_row.status r = Some ''canceled'') rows)) \<rparr> \<rparr>"
  by (simp add: quotationSummary_def foldl_quotation_step foldl_add_bucket empty_summary_def
        status_key_pending status_key_booked status_key_canceled)

text \<open>
  Four rows: \<open>pending\<close>, \<open>draft\<close>, no status, \<open>canceled\<close>.  The \<open>draft\<close> row is in no
  bucket, the row without status is in \<open>canceled\<close>.
\<close>

theorem quotationSummary_buckets_witness:
  "quotationSummary
     [\<lparr> status_row.status = Some ''pending'', status_row.count = PgText ''4'',
        status_row.total_amount = PgText ''400.25'' \<rparr>,
      \<lparr> status_row.status = Some ''draft'', status_row.count = PgText ''7'',
        status_row.total_amount = PgText ''70'' \<rparr>,
      \<lparr> status_row.status = None, status_row.count = PgText ''2'',
        status_row.total_amount = PgText ''30'' \<rparr>,
      \<lparr> status_row.status = Some ''canceled'', status_row.count = PgText ''1'',
        status_row.total_amount = PgNull \<rparr>]
   = \<lparr> pending = \<lparr> bucket.count = Fin 4, bucket.total_amount = Fin (1601 / 4) \<rparr>,
       booked = \<lparr> bucket.count = Fin 0, bucket.total_amount = Fin 0 \<rparr>,
       canceled = \<lparr> bucket.count = Fin 3, bucket.total_amount = Fin 30 \<rparr> \<rparr>"
proof -
  have count: "parseInt (PgText ''4'') = Some 4" "parseInt (PgText ''2'') = Some 2"
    "parseInt (PgText ''1'') = Some 1"
    by code_simp+
  have amount: "parseFloat (PgText ''400.25'') = Fin (1601 / 4)"
    "parseFloat (PgText ''30'') = Fin 30" "parseFloat PgNull = NaN"
    by code_simp+
  show ?thesis
    by (simp add: quotationSummary_buckets count amount js_or0_def)
qed

section \<open>The handler: one answer\<close>

text \<open>
  C3.  If any query of the request is rejected, the answer is the status 500 with the
  body \<open>{message, error}\<close> and nothing else; if none is, it is the status 200 with the
  report of the seven facets.  (The handler issues nine queries, the regional facet
  taking two; the statement covers the nine.)
\<close>

theorem getSalesAnalysis_all_or_nothing:
  "((isl (pool.validateProducts p) \<or> isl (pool.products p) \<or> isl (pool.cityBookings p)
       \<or> isl (pool.cityQuotations p) \<or> isl (pool.historical p) \<or> isl (pool.profitability p)
       \<or> isl (pool.quotations p) \<or> isl (pool.customerTypes p) \<or> isl (pool.cancellations p))
     \<longrightarrow> (\<exists>err. getSalesAnalysis p
                  = Response 500 (Failure ''Failed to fetch sales analysis'' err)))
   \<and> ((\<not> isl (pool.validateProducts p) \<and> \<not> isl (pool.products p)
        \<and> \<not> isl (pool.cityBookings p) \<and> \<not> isl (pool.cityQuotations p)
        \<and> \<not> isl (pool.historical p) \<and> \<not> isl (pool.profitability p)
        \<and> \<not> isl (pool.quotations p) \<and> \<not> isl (pool.customerTypes p)
        \<and> \<not> isl (pool.cancellations p))
     \<longrightarrow> getSalesAnalysis p
           = Response 200 (Report
               \<lparr> report.products = productData (projr (pool.products p)),
                 report.cities =
                   cityData (projr (pool.cityBookings p)) (projr (pool.cityQuotations p)),
                 report.trends = trendDataArray (projr (pool.historical p)),
                 report.profitability = profitData (projr (pool.profitability p)),
                 report.quotations = quotationSummary (projr (pool.quotations p)),
                 report.customer_types = customerTypeData (projr (pool.customerTypes p)),
                 report.cancellations = cancellationData (projr (pool.cancellations p)) \<rparr>))"
  by (simp add: getSalesAnalysis_def await_def split: sum.splits)

text \<open>
  A pool whose last query is rejected, after eight that returned rows, and a pool that
  answers every query with no rows.
\<close>

theorem getSalesAnalysis_all_or_nothing_witness:
  "(\<exists>err. getSalesAnalysis
       \<lparr> pool.validateProducts = Inr [], pool.products = Inr [], pool.cityBookings = Inr [],
         pool.cityQuotations = Inr [], pool.historical = Inr [], pool.profitability = Inr [],
         pool.quotations = Inr [], pool.customerTypes = Inr [],
         pool.cancellations = Inl ''connection terminated'' \<rparr>
     = Response 500 (Failure ''Failed to fetch sales analysis'' err))
   \<and> getSalesAnalysis
       \<lparr> pool.validateProducts = Inr [], pool.products = Inr [], pool.cityBookings = Inr [],
         pool.cityQuotations = Inr [], pool.historical = Inr [], pool.profitability = Inr [],
         pool.quotations = Inr [], pool.customerTypes = Inr [], pool.cancellations = Inr [] \<rparr>
     = Response 200 (Report
         \<lparr> report.products = productData [], report.cities = cityData [] [],
           report.trends = trendDataArray [], report.profitability = profitData [],
           report.quotations = quotationSummary [],
           report.customer_types = customerTypeData [],
           report.cancellations = cancellationData [] \<rparr>)"
  using getSalesAnalysis_all_or_nothing
          [of "\<lparr> pool.validateProducts = Inr [], pool.products = Inr [],
                 pool.cityBookings = Inr [], pool.cityQuotations = Inr [],
                 pool.historical = Inr [], pool.profitability = Inr [],
                 pool.quotations = Inr [], pool.customerTypes = Inr [],
                 pool.cancellations = Inl ''connection terminated'' \<rparr>"]
        getSalesAnalysis_all_or_nothing
          [of "\<lparr> pool.validateProducts = Inr [], pool.products = Inr [],
                 pool.cityBookings = Inr [], pool.cityQuotations = Inr [],
                 pool.historical = Inr [], pool.profitability = Inr [],
                 pool.quotations = Inr [], pool.customerTypes = Inr [],
                 pool.cancellations = Inr [] \<rparr>"]
  by simp

section \<open>Cancellations: the order of the rows\<close>

lemma created_at_less_asym: "created_at_less a b \<Longrightarrow> \<not> created_at_less b a"
  by (auto simp: created_at_less_def split: option.splits)

lemma created_at_ge_trans:
  "\<not> created_at_less a b \<Longrightarrow> \<not> created_at_less b c \<Longrightarrow> \<not> created_at_less a c"
  by (auto simp: created_at_less_def split: option.splits)

lemma sorted_ORDER_BY:
  "sorted_wrt (\<lambda>r s. created_at_ge (cancellation_row.created_at r) (cancellation_row.created_at s))
     (ORDER_BY_created_at_DESC rows)"
  unfolding ORDER_BY_created_at_DESC_def created_at_ge_def
proof (rule sorted_foldr_insert_by_on [of UNIV])
  fix r s :: cancellation_row
  assume "created_at_less (cancellation_row.created_at r) (cancellation_row.created_at s)"
  then show "\<not> created_at_less (cancellation_row.created_at s) (cancellation_row.created_at r)"
    by (rule created_at_less_asym)
next
  fix r s c :: cancellation_row
  assume "\<not> created_at_less (cancellation_row.created_at r) (cancellation_row.created_at s)"
    and "\<not> created_at_less (cancellation_row.created_at s) (cancellation_row.created_at c)"
  then show "\<not> created_at_less (cancellation_row.created_at r) (cancellation_row.created_at c)"
    by (rule created_at_ge_trans)
qed simp

lemma mset_ORDER_BY: "mset (ORDER_BY_created_at_DESC rows) = mset rows"
  by (simp add: ORDER_BY_created_at_DESC_def mset_foldr_insert_by)

lemma parseFloat_coalesce_total:
  "js_or0 (parseFloat (coalesce_total t))
     = (case t of None \<Rightarrow> Fin 0 | Some s \<Rightarrow> js_or0 (parseFloat_str s))"
proof (cases t)
  case None
  have "parseFloat_str ''0'' = Fin 0" by code_simp
  with None show ?thesis by (simp add: coalesce_total_def parseFloat_def js_or0_def)
next
  case (Some s)
  then show ?thesis by (simp add: coalesce_total_def parseFloat_def)
qed

text \<open>
  C9.  The cancellations facet holds the canceled orders and the canceled quotations -
  each with its tag \<open>booking\<close> or \<open>quotation\<close>, its identifier, its total (0 for a
  \<open>NULL\<close> or unparsable one) and its \<open>created_at\<close> - in descending order of
  \<open>created_at\<close> across both sources: of two entries the earlier one has the greater or
  equal \<open>created_at\<close>, adjacent or not.  A \<open>NULL\<close> \<open>created_at\<close> sorts first, as the
  database has it.
\<close>

theorem cancellations_descending:
  "sorted_wrt (\<lambda>a b. created_at_ge (cancellation.created_at a) (cancellation.created_at b))
     (cancellationData (cancellations_query bookings fwcquotations))
   \<and> mset (cancellationData (cancellations_query bookings fwcquotations))
       = mset (map (\<lambda>b. \<lparr> cancellation.type = ''booking'',
                           cancellation.order_id = booking.order_id b,
                           cancellation.total =
                             (case booking.total b of
                                None \<Rightarrow> Fin 0
                              | Some t \<Rightarrow> js_or0 (parseFloat_str t)),
                           cancellation.created_at = booking.created_at b \<rparr>)
                 (filter (\<lambda>b. cancellations_status (booking.status b)) bookings))
         + mset (map (\<lambda>q. \<lparr> cancellation.type = ''quotation'',
                             cancellation.order_id = fwcquotation.quotation_id q,
                             cancellation.total =
                               (case fwcquotation.total q of
                                  None \<Rightarrow> Fin 0
                                | Some t \<Rightarrow> js_or0 (parseFloat_str t)),
                             cancellation.created_at = fwcquotation.created_at q \<rparr>)
                   (filter (\<lambda>q. cancellations_status (fwcquotation.status q)) fwcquotations))"
proof
  have "sorted_wrt (\<lambda>r s. created_at_ge (cancellation.created_at (cancellation_of r))
                            (cancellation.created_at (cancellation_of s)))
          (cancellations_query bookings fwcquotations)"
    using sorted_ORDER_BY by (simp add: cancellations_query_def cancellation_of_def)
  then show "sorted_wrt (\<lambda>a b. created_at_ge (cancellation.created_at a) (cancellation.created_at b))
     (cancellationData (cancellations_query bookings fwcquotations))"
    by (simp add: cancellationData_def sorted_wrt_map)
next
  show "mset (cancellationData (cancellations_query bookings fwcquotations))
       = mset (map (\<lambda>b. \<lparr> cancellation.type = ''booking'',
                           cancellation.order_id = booking.order_id b,
                           cancellation.total =
                             (case booking.total b of
                                None \<Rightarrow> Fin 0
                              | Some t \<Rightarrow> js_or0 (parseFloat_str t)),
                           cancellation.created_at = booking.created_at b \<rparr>)
                 (filter (\<lambda>b. cancellations_status (booking.status b)) bookings))
         + mset (map (\<lambda>q. \<lparr> cancellation.type = ''quotation'',
                             cancellation.order_id = fwcquotation.quotation_id q,
                             cancellation.total =
                               (case fwcquotation.total q of
                                  None \<Rightarrow> Fin 0
                                | Some t \<Rightarrow> js_or0 (parseFloat_str t)),
                             cancellation.created_at = fwcquotation.created_at q \<rparr>)
                   (filter (\<lambda>q. cancellations_status (fwcquotation.status q)) fwcquotations))"
    by (simp add: cancellationData_def cancellations_query_def mset_ORDER_BY
          multiset.map_comp comp_def cancellation_of_def parseFloat_coalesce_total)
qed

text \<open>
  Two canceled orders, one of them the older, one order that is paid, and a canceled
  quotation between the two in time: the facet lists order, quotation, order.
\<close>

lemma cancellations_example:
  "cancellationData
     (cancellations_query
        [\<lparr> booking.order_id = PgText ''ORD-1'', booking.status = Some ''Canceled'',
           booking.total = None, booking.created_at = Some 5 \<rparr>,
         \<lparr> booking.order_id = PgText ''ORD-2'', booking.status = Some ''paid'',
           booking.total = Some ''80'', booking.created_at = Some 7 \<rparr>,
         \<lparr> booking.order_id = PgText ''ORD-3'', booking.status = Some ''canceled'',
           booking.total = Some ''12.5'', booking.created_at = Some 11 \<rparr>]
        [\<lparr> fwcquotation.quotation_id = PgText ''QUO-1'', fwcquotation.status = Some ''CANCELED'',
           fwcquotation.total = Some ''7'', fwcquotation.created_at = Some 9 \<rparr>])
   = [\<lparr> cancellation.type = ''booking'', cancellation.order_id = PgText ''ORD-3'',
         cancellation.total = Fin (25 / 2), cancellation.created_at = Some 11 \<rparr>,
      \<lparr> cancellation.type = ''quotation'', cancellation.order_id = PgText ''QUO-1'',
         cancellation.total = Fin 7, cancellation.created_at = Some 9 \<rparr>,
      \<lparr> cancellation.type = ''booking'', cancellation.order_id = PgText ''ORD-1'',
         cancellation.total = Fin 0, cancellation.created_at = Some 5 \<rparr>]"
  by code_simp

theorem cancellations_descending_witness:
  "sorted_wrt (\<lambda>a b. created_at_ge (cancellation.created_at a) (cancellation.created_at b))
     [\<lparr> cancellation.type = ''booking'', cancellation.order_id = PgText ''ORD-3'',
         cancellation.total = Fin (25 / 2), cancellation.created_at = Some 11 \<rparr>,
      \<lparr> cancellation.type = ''quotation'', cancellation.order_id = PgText ''QUO-1'',
         cancellation.total = Fin 7, cancellation.created_at = Some 9 \<rparr>,
      \<lparr> cancellation.type = ''booking'', cancellation.order_id = PgText ''ORD-1'',
         cancellation.total = Fin 0, cancellation.created_at = Some 5 \<rparr>]"
  using cancellations_descending
          [of "[\<lparr> booking.order_id = PgText ''ORD-1'', booking.status = Some ''Canceled'',
                  booking.total = None, booking.created_at = Some 5 \<rparr>,
                \<lparr> booking.order_id = PgText ''ORD-2'', booking.status = Some ''paid'',
                  booking.total = Some ''80'', booking.created_at = Some 7 \<rparr>,
                \<lparr> booking.order_id = PgText ''ORD-3'', booking.status = Some ''canceled'',
                  booking.total = Some ''12.5'', booking.created_at = Some 11 \<rparr>]"
              "[\<lparr> fwcquotation.quotation_id = PgText ''QUO-1'',
                  fwcquotation.status = Some ''CANCELED'',
                  fwcquotation.total = Some ''7'', fwcquotation.created_at = Some 9 \<rparr>]"]
  by (simp add: cancellations_example)

end
